theory Spec2Isabelle
  imports Main "HOL-Library.Word"
begin

section \<open>Engine data used by SimpleAssetLibraryBPLibrary.cpp\<close>

text \<open>
  The plugin is glue around engine services. The engine types the source uses are
  modelled by what the source reads and writes of them:
  \<^item> \<open>int32\<close> is a 32-bit word, compared as a signed number (\<open><s\<close>);
  \<open>uint8\<close> is a byte;
  \<^item> an \<open>FName\<close> is identified by its string, and the name \<open>None\<close> is the
  string \<open>''None''\<close> (what \<open>ToString\<close> gives for it);
  \<^item> a \<open>TSet\<close> is the list of its elements in insertion order, without duplicates;
  \<^item> a pointer to an engine object is an optional index, \<open>None\<close> being \<open>nullptr\<close>.
\<close>

type_synonym int32 = "32 word"
type_synonym uint8 = "8 word"
type_synonym FName = string
type_synonym 'a TSet = "'a list"

definition IsNone :: "FName \<Rightarrow> bool" where
  "IsNone Tag = (Tag = ''None'')"

definition TSet_Contains :: "'a TSet \<Rightarrow> 'a \<Rightarrow> bool" where
  "TSet_Contains S x = (x \<in> set S)"

definition TSet_Add :: "'a TSet \<Rightarrow> 'a \<Rightarrow> 'a TSet" where
  "TSet_Add S x = (if x \<in> set S then S else S @ [x])"

section \<open>RegisterMetadataTags (lines 79-93)\<close>

text \<open>
  The loop over \<open>Tags\<close> is a recursion over the list; the second argument is the global
  set \<open>UObject::GetMetaDataTagsForAssetRegistry()\<close>, which the source updates in place
  and the model returns.
\<close>

fun RegisterMetadataTags :: "FName list \<Rightarrow> FName TSet \<Rightarrow> FName TSet" where
  "RegisterMetadataTags [] GlobalTagsForAssetRegistry = GlobalTagsForAssetRegistry"
| "RegisterMetadataTags (Tag # Tags) GlobalTagsForAssetRegistry =
     RegisterMetadataTags Tags
       (if \<not> IsNone Tag
        then (if \<not> TSet_Contains GlobalTagsForAssetRegistry Tag
              then TSet_Add GlobalTagsForAssetRegistry Tag
              else GlobalTagsForAssetRegistry)
        else GlobalTagsForAssetRegistry)"

section \<open>GetEditorViewportMousePositionWS (lines 33-77)\<close>



















section \<open>Thumbnails, textures and engine services\<close>

record FObjectThumbnail =
  GetImageWidth :: int32
  GetImageHeight :: int32
  GetUncompressedImageData :: "uint8 list"

record FAssetData =
  PackageName :: FName
  GetFullName :: string

definition ToString :: "FName \<Rightarrow> string" where
  "ToString n = n"

record UTexture2D =
  SizeX :: int32
  SizeY :: int32
  Mip0 :: "uint8 list"
  bNotOfflineProcessed :: bool

type_synonym UObject_ptr = "nat option"
type_synonym UTexture2D_ptr = "nat option"
type_synonym UMaterialInstanceDynamic_ptr = "nat option"

text \<open>
  The engine services the two thumbnail functions call. They are parameters of the
  model: the source only calls them. Storage and the engine's answers do not change
  during a call (the code is single-threaded and synchronous), so they are functions.
  \<^item> \<open>DoesPackageExist\<close> gives the package's file name (the out-parameter
  \<open>PackageFilename\<close>) when the package exists;
  \<^item> \<open>GenerateThumbnailForObjectToSaveToDisk\<close> and the \<open>Find\<close> in the map that
  \<open>LoadThumbnailsFromPackage\<close> fills give a pointer that may be \<open>nullptr\<close>;
  \<^item> \<open>CreateTransient_succeeds\<close> says whether \<open>UTexture2D::CreateTransient\<close> returns
  an object for these dimensions;
  \<^item> \<open>GetCompressed\<close> is the PNG image wrapper (\<open>SetRaw\<close>, then
  \<open>GetCompressed\<close>); \<open>ImportBuffer\<close> is what
  \<open>FImageUtils::ImportBufferAsTexture2D\<close> decodes, if anything.
\<close>

record engine =
  DoesPackageExist :: "string \<Rightarrow> string option"
  GetAsset :: "FAssetData \<Rightarrow> UObject_ptr"
  GenerateThumbnailForObjectToSaveToDisk :: "UObject_ptr \<Rightarrow> FObjectThumbnail option"
  CreateTransient_succeeds :: "int32 \<Rightarrow> int32 \<Rightarrow> bool"
  LoadThumbnailsFromPackage :: "string \<Rightarrow> FName TSet \<Rightarrow> (FName \<rightharpoonup> FObjectThumbnail)"
  GetCompressed :: "uint8 list \<Rightarrow> int32 \<Rightarrow> int32 \<Rightarrow> uint8 list"
  ImportBuffer :: "uint8 list \<Rightarrow> UTexture2D option"

text \<open>
  What a call changes: the texture objects that exist (a pointer is an index into
  \<open>textures\<close>), the objects added to the root set, and the texture parameters of the
  dynamic materials (material and parameter name to the texture pointer last set,
  which may be \<open>nullptr\<close>).
\<close>

record engine_state =
  textures :: "UTexture2D list"
  root_set :: "nat set"
  texture_parameter :: "nat \<times> string \<rightharpoonup> UTexture2D_ptr"

text \<open>
  The statements of \<open>RenderAssetThumbnailToDynamicMaterial\<close> that the claims speak
  about, in source order: the existence check of lines 166-170, the generation of line
  174, the allocation of line 188 (with the dimensions asked for), the binding of line
  205, the second existence check of line 217, the load of line 220, the binding of
  line 239 and the binding of line 245.
\<close>

datatype step =
  CheckExists | Generate | Allocate int32 int32 | BindGenerated
  | RecheckExists | LoadCached | BindCached | BindDefault


text \<open>
  A frame holds the three reference parameters \<open>ImageWidth\<close>, \<open>ImageHeight\<close> and
  \<open>IsValid\<close> (the caller's variables: they hold a value before the call), the engine
  state, and \<open>visited\<close>, the steps reached so far. \<open>visited\<close> is not a variable of
  the source: it records the path of the run.
\<close>

record frame =
  ImageWidth :: int32
  ImageHeight :: int32
  IsValid :: bool
  engine_st :: engine_state
  visited :: "step list"

text \<open>
  Dereferencing \<open>nullptr\<close> ends the run: \<open>Crash\<close>, with the pointer that was null.
  \<open>Return\<close> is a \<open>return\<close> statement (or the end of the function), \<open>Next\<close> is
  control reaching the end of a block.
\<close>

datatype error = NullThumbnail | NullTexture | NullMaterial

datatype flow = Next frame | Return frame | Crash error frame

fun frame_of :: "flow \<Rightarrow> frame" where
  "frame_of (Next f) = f"
| "frame_of (Return f) = f"
| "frame_of (Crash e f) = f"

definition and_then :: "flow \<Rightarrow> (frame \<Rightarrow> flow) \<Rightarrow> flow" where
  "and_then r k = (case r of Next f \<Rightarrow> k f | Return f \<Rightarrow> Return f | Crash e f \<Rightarrow> Crash e f)"

definition visit :: "step \<Rightarrow> frame \<Rightarrow> frame" where
  "visit s f = f\<lparr>visited := visited f @ [s]\<rparr>"

text \<open>
  A new object gets the next pointer. \<open>Mip0\<close> is the bytes written into the first
  mip of a texture: a transient texture starts with none written (the source never
  reads what the buffer held before the copy), and \<open>Memcpy\<close> writes all of the source
  bytes over the start of the destination.
\<close>

definition NewObject :: "UTexture2D \<Rightarrow> engine_state \<Rightarrow> nat \<times> engine_state" where
  "NewObject t s = (length (textures s), s\<lparr>textures := textures s @ [t]\<rparr>)"

definition CreateTransient ::
  "engine \<Rightarrow> int32 \<Rightarrow> int32 \<Rightarrow> engine_state \<Rightarrow> UTexture2D_ptr \<times> engine_state" where
  "CreateTransient E InSizeX InSizeY s =
     (if CreateTransient_succeeds E InSizeX InSizeY
      then (let (p, s') = NewObject
                  \<lparr>SizeX = InSizeX, SizeY = InSizeY, Mip0 = [], bNotOfflineProcessed = False\<rparr> s
            in (Some p, s'))
      else (None, s))"

definition ImportBufferAsTexture2D ::
  "engine \<Rightarrow> uint8 list \<Rightarrow> engine_state \<Rightarrow> UTexture2D_ptr \<times> engine_state" where
  "ImportBufferAsTexture2D E Buffer s =
     (case ImportBuffer E Buffer of
        None \<Rightarrow> (None, s)
      | Some t \<Rightarrow> (let (p, s') = NewObject t s in (Some p, s')))"

definition SetTextureParameterValue ::
  "UMaterialInstanceDynamic_ptr \<Rightarrow> string \<Rightarrow> UTexture2D_ptr \<Rightarrow> engine_state
     \<Rightarrow> error + engine_state" where
  "SetTextureParameterValue DynamicMaterial ParameterName Value s =
     (case DynamicMaterial of
        None \<Rightarrow> Inl NullMaterial
      | Some m \<Rightarrow>
          Inr (s\<lparr>texture_parameter := (texture_parameter s)((m, ParameterName) \<mapsto> Value)\<rparr>))"

definition Memcpy :: "uint8 list \<Rightarrow> uint8 list \<Rightarrow> uint8 list" where
  "Memcpy Dest Src = Src @ drop (length Src) Dest"

definition populate_mip :: "nat \<Rightarrow> uint8 list \<Rightarrow> engine_state \<Rightarrow> engine_state" where
  "populate_mip p RawData s =
     s\<lparr>textures := (textures s)
          [p := (textures s ! p)\<lparr>Mip0 := Memcpy (Mip0 (textures s ! p)) RawData,
                                 bNotOfflineProcessed := True\<rparr>]\<rparr>"

definition AddToRoot :: "nat \<Rightarrow> engine_state \<Rightarrow> engine_state" where
  "AddToRoot p s = s\<lparr>root_set := insert p (root_set s)\<rparr>"

section \<open>The blocks of the two thumbnail functions\<close>

text \<open>Lines 161-170: \<open>IsValid\<close> is cleared, then set when the package exists.\<close>

definition validate_asset :: "engine \<Rightarrow> FAssetData \<Rightarrow> frame \<Rightarrow> frame" where
  "validate_asset E AssetData f =
     (let f1 = visit CheckExists (f\<lparr>IsValid := False\<rparr>)
      in if ToString (PackageName AssetData) \<noteq> ''None''
         then (case DoesPackageExist E (ToString (PackageName AssetData)) of
                 Some PackageFilename \<Rightarrow> f1\<lparr>IsValid := True\<rparr>
               | None \<Rightarrow> f1)
         else f1)"

text \<open>Lines 175-185: the dimensions of the generated thumbnail, forced to 1 x 1 and
  not valid when one of them is below 1 (a signed comparison).\<close>

definition measure_thumbnail :: "FObjectThumbnail option \<Rightarrow> frame \<Rightarrow> frame" where
  "measure_thumbnail thumb f =
     (let f1 = f\<lparr>ImageWidth := 0, ImageHeight := 0\<rparr>;
          f2 = (case thumb of
                  Some t \<Rightarrow> f1\<lparr>ImageWidth := GetImageWidth t, ImageHeight := GetImageHeight t\<rparr>
                | None \<Rightarrow> f1)
      in if ImageWidth f2 <s 1 \<or> ImageHeight f2 <s 1
         then f2\<lparr>ImageWidth := 1, ImageHeight := 1, IsValid := False\<rparr>
         else f2)"

text \<open>Lines 188-191: the transient texture is asked for whatever \<open>IsValid\<close> says.\<close>

definition prepare_transient :: "engine \<Rightarrow> frame \<Rightarrow> UTexture2D_ptr \<times> frame" where
  "prepare_transient E f =
     (let (ThumbnailTexture, s) =
            CreateTransient E (ImageWidth f) (ImageHeight f) (engine_st f);
          f1 = visit (Allocate (ImageWidth f) (ImageHeight f)) (f\<lparr>engine_st := s\<rparr>)
      in (ThumbnailTexture,
          if ThumbnailTexture = None then f1\<lparr>IsValid := False\<rparr> else f1))"

text \<open>Lines 195-206: both pointers are dereferenced, the pixels copied, the texture
  added to the root set and bound; then \<open>return\<close>.\<close>

definition populate_transient ::
  "UMaterialInstanceDynamic_ptr \<Rightarrow> FObjectThumbnail option \<Rightarrow> UTexture2D_ptr \<Rightarrow> frame
     \<Rightarrow> flow" where
  "populate_transient DynamicMaterial thumb ThumbnailTexture f =
     (case ThumbnailTexture of
        None \<Rightarrow> Crash NullTexture f
      | Some p \<Rightarrow>
          (case thumb of
             None \<Rightarrow> Crash NullThumbnail f
           | Some t \<Rightarrow>
               (let RawData = GetUncompressedImageData t;
                    s1 = AddToRoot p (populate_mip p RawData (engine_st f));
                    f1 = visit BindGenerated (f\<lparr>engine_st := s1\<rparr>)
                in case SetTextureParameterValue DynamicMaterial ''texture'' (Some p) s1 of
                     Inl e \<Rightarrow> Crash e f1
                   | Inr s2 \<Rightarrow> Return (f1\<lparr>engine_st := s2\<rparr>))))"

text \<open>Lines 173-209.\<close>

definition regenerate ::
  "engine \<Rightarrow> UMaterialInstanceDynamic_ptr \<Rightarrow> FAssetData \<Rightarrow> frame \<Rightarrow> flow" where
  "regenerate E DynamicMaterial AssetData f =
     (if IsValid f
      then (let thumb = GenerateThumbnailForObjectToSaveToDisk E (GetAsset E AssetData);
                f1 = measure_thumbnail thumb (visit Generate f);
                (ThumbnailTexture, f2) = prepare_transient E f1
            in if IsValid f2
               then populate_transient DynamicMaterial thumb ThumbnailTexture f2
               else Next f2)
      else Next f)"

text \<open>
  Lines 116-136 and, word for word, lines 219-239: the thumbnail stored in the package
  is looked up, and the pointer \<open>Find\<close> returns is dereferenced at once.
\<close>

definition existing_thumbnail ::
  "engine \<Rightarrow> UMaterialInstanceDynamic_ptr \<Rightarrow> string \<Rightarrow> FName TSet \<Rightarrow> FName \<Rightarrow> frame
     \<Rightarrow> flow" where
  "existing_thumbnail E DynamicMaterial PackageFilename ObjectFullNames ObjectFullName f =
     (let ThumbnailMap = LoadThumbnailsFromPackage E PackageFilename ObjectFullNames;
          f1 = visit LoadCached f
      in case ThumbnailMap ObjectFullName of
           None \<Rightarrow> Crash NullThumbnail f1
         | Some Thumbnail \<Rightarrow>
             (let f2 = f1\<lparr>ImageWidth := GetImageWidth Thumbnail,
                          ImageHeight := GetImageHeight Thumbnail\<rparr>;
                  CompressedByteArray =
                    GetCompressed E (GetUncompressedImageData Thumbnail)
                      (ImageWidth f2) (ImageHeight f2);
                  (ThumbnailTexture, s1) =
                    ImportBufferAsTexture2D E CompressedByteArray (engine_st f2);
                  f3 = visit BindCached (f2\<lparr>engine_st := s1\<rparr>)
              in case SetTextureParameterValue DynamicMaterial ''texture'' ThumbnailTexture s1 of
                   Inl e \<Rightarrow> Crash e f3
                 | Inr s2 \<Rightarrow> Next (f3\<lparr>engine_st := s2\<rparr>)))"

text \<open>Lines 212-242: the second existence check and the stored thumbnail.\<close>

definition cached_fallback ::
  "engine \<Rightarrow> UMaterialInstanceDynamic_ptr \<Rightarrow> FAssetData \<Rightarrow> frame \<Rightarrow> flow" where
  "cached_fallback E DynamicMaterial AssetData f =
     (let ObjectFullName = GetFullName AssetData;
          ObjectFullNames = TSet_Add [] ObjectFullName;
          f0 = visit RecheckExists f
      in if ToString (PackageName AssetData) \<noteq> ''None''
         then (case DoesPackageExist E (ToString (PackageName AssetData)) of
                 Some PackageFilename \<Rightarrow>
                   and_then
                     (existing_thumbnail E DynamicMaterial PackageFilename
                        ObjectFullNames ObjectFullName f0)
                     (\<lambda>f1. Return (f1\<lparr>IsValid := True\<rparr>))
               | None \<Rightarrow> Next f0)
         else Next f0)"

text \<open>Line 245 (and line 139).\<close>

definition use_default ::
  "UMaterialInstanceDynamic_ptr \<Rightarrow> UTexture2D_ptr \<Rightarrow> frame \<Rightarrow> flow" where
  "use_default DynamicMaterial DefaultTexture f =
     (let f1 = visit BindDefault f
      in case SetTextureParameterValue DynamicMaterial ''texture'' DefaultTexture
                (engine_st f1) of
           Inl e \<Rightarrow> Crash e f1
         | Inr s \<Rightarrow> Return (f1\<lparr>engine_st := s\<rparr>))"

section \<open>RenderAssetThumbnailToDynamicMaterial (lines 143-246)\<close>

definition RenderAssetThumbnailToDynamicMaterial ::
  "engine \<Rightarrow> UMaterialInstanceDynamic_ptr \<Rightarrow> FAssetData \<Rightarrow> UTexture2D_ptr \<Rightarrow> frame
     \<Rightarrow> flow" where
  "RenderAssetThumbnailToDynamicMaterial E DynamicMaterial AssetData DefaultTexture f =
     and_then
       (and_then
          (regenerate E DynamicMaterial AssetData (validate_asset E AssetData f))
          (cached_fallback E DynamicMaterial AssetData))
       (use_default DynamicMaterial DefaultTexture)"

section \<open>AddExistingAssetThumbnailToDynamicMaterial (lines 95-141)\<close>

definition AddExistingAssetThumbnailToDynamicMaterial ::
  "engine \<Rightarrow> UMaterialInstanceDynamic_ptr \<Rightarrow> FAssetData \<Rightarrow> UTexture2D_ptr \<Rightarrow> frame
     \<Rightarrow> flow" where
  "AddExistingAssetThumbnailToDynamicMaterial E DynamicMaterial AssetData DefaultTexture f =
     (let ObjectFullName = GetFullName AssetData;
          ObjectFullNames = TSet_Add [] ObjectFullName
      in if ToString (PackageName AssetData) \<noteq> ''None''
         then (case DoesPackageExist E (ToString (PackageName AssetData)) of
                 Some PackageFilename \<Rightarrow>
                   and_then
                     (existing_thumbnail E DynamicMaterial PackageFilename
                        ObjectFullNames ObjectFullName f)
                     Return
               | None \<Rightarrow> use_default DynamicMaterial DefaultTexture f)
         else use_default DynamicMaterial DefaultTexture f)"

text \<open>What the caller sees of a run: the error, or the three reference parameters.\<close>

definition outputs :: "flow \<Rightarrow> error + int32 \<times> int32 \<times> bool" where
  "outputs r =
     (case r of
        Crash e f \<Rightarrow> Inl e
      | Return f \<Rightarrow> Inr (ImageWidth f, ImageHeight f, IsValid f)
      | Next f \<Rightarrow> Inr (ImageWidth f, ImageHeight f, IsValid f))"

definition bound_texture :: "flow \<Rightarrow> nat \<Rightarrow> UTexture2D_ptr option" where
  "bound_texture r m = texture_parameter (engine_st (frame_of r)) (m, ''texture'')"

section \<open>The conditions the claims speak about\<close>

text \<open>
  The asset is in storage when both existence checks of the source pass: the package
  name is not \<open>None\<close> and \<open>DoesPackageExist\<close> finds the package (lines 166-167 and
  line 217 evaluate the same expression). \<open>generated_thumbnail\<close> is the pointer of line
  174, \<open>usable\<close> says that it is not null and that width and height are at least 1,
  \<open>asked_size\<close> is the size line 188 asks for, \<open>stored_thumbnail\<close> is the pointer of
  line 221 (and line 118), and the run regenerates when lines 173-194 leave \<open>IsValid\<close>
  set. \<open>transient_left\<close> is the texture object that line 188 creates when the run
  does not regenerate: the block creates it whatever \<open>IsValid\<close> says, and leaves it.
\<close>

definition asset_in_storage :: "engine \<Rightarrow> FAssetData \<Rightarrow> bool" where
  "asset_in_storage E AssetData =
     (ToString (PackageName AssetData) \<noteq> ''None'' \<and>
      DoesPackageExist E (ToString (PackageName AssetData)) \<noteq> None)"

definition generated_thumbnail :: "engine \<Rightarrow> FAssetData \<Rightarrow> FObjectThumbnail option" where
  "generated_thumbnail E AssetData =
     GenerateThumbnailForObjectToSaveToDisk E (GetAsset E AssetData)"

definition usable :: "FObjectThumbnail option \<Rightarrow> bool" where
  "usable thumb =
     (case thumb of
        Some t \<Rightarrow> 1 \<le> sint (GetImageWidth t) \<and> 1 \<le> sint (GetImageHeight t)
      | None \<Rightarrow> False)"

definition asked_size :: "FObjectThumbnail option \<Rightarrow> int32 \<times> int32" where
  "asked_size thumb =
     (case thumb of
        Some t \<Rightarrow> if usable thumb then (GetImageWidth t, GetImageHeight t) else (1, 1)
      | None \<Rightarrow> (1, 1))"

definition stored_thumbnail :: "engine \<Rightarrow> FAssetData \<Rightarrow> FObjectThumbnail option" where
  "stored_thumbnail E AssetData =
     (case DoesPackageExist E (ToString (PackageName AssetData)) of
        Some PackageFilename \<Rightarrow>
          LoadThumbnailsFromPackage E PackageFilename [GetFullName AssetData]
            (GetFullName AssetData)
      | None \<Rightarrow> None)"

definition regenerates :: "engine \<Rightarrow> FAssetData \<Rightarrow> bool" where
  "regenerates E AssetData =
     (asset_in_storage E AssetData \<and> usable (generated_thumbnail E AssetData) \<and>
      CreateTransient_succeeds E (fst (asked_size (generated_thumbnail E AssetData)))
        (snd (asked_size (generated_thumbnail E AssetData))))"


definition path :: "flow \<Rightarrow> step list" where
  "path r = visited (frame_of r)"

section \<open>Sample inputs\<close>

text \<open>
  An editor with one package on disk, \<open>/Game/Rock\<close>, and one texture object (the
  64 x 64 default texture, at pointer 0). What the thumbnail generator returns for the
  asset, whether a transient texture can be created, and the thumbnail stored in the
  package file are the three arguments of \<open>content_browser\<close>.
\<close>

definition rock :: FAssetData where
  "rock = \<lparr>PackageName = ''/Game/Rock'', GetFullName = ''StaticMesh /Game/Rock.Rock''\<rparr>"

definition gone :: FAssetData where
  "gone = \<lparr>PackageName = ''/Game/Gone'', GetFullName = ''StaticMesh /Game/Gone.Gone''\<rparr>"

definition thumbnail_of :: "int32 \<Rightarrow> int32 \<Rightarrow> FObjectThumbnail" where
  "thumbnail_of w h =
     \<lparr>GetImageWidth = w, GetImageHeight = h, GetUncompressedImageData = [1, 2, 3, 4]\<rparr>"

definition content_browser ::
  "FObjectThumbnail option \<Rightarrow> bool \<Rightarrow> FObjectThumbnail option \<Rightarrow> engine" where
  "content_browser generated room stored =
     \<lparr>DoesPackageExist =
        (\<lambda>n. if n = ''/Game/Rock'' then Some ''Content/Rock.uasset'' else None),
      GetAsset = (\<lambda>a. if PackageName a = ''/Game/Rock'' then Some 0 else None),
      GenerateThumbnailForObjectToSaveToDisk =
        (\<lambda>obj. if obj = Some 0 then generated else None),
      CreateTransient_succeeds = (\<lambda>w h. room),
      LoadThumbnailsFromPackage =
        (\<lambda>fn names n. if fn = ''Content/Rock.uasset'' \<and> n \<in> set names then stored else None),
      GetCompressed = (\<lambda>d w h. d),
      ImportBuffer =
        (\<lambda>b. Some \<lparr>SizeX = 32, SizeY = 32, Mip0 = b, bNotOfflineProcessed = False\<rparr>)\<rparr>"

definition editor_state :: engine_state where
  "editor_state =
     \<lparr>textures = [\<lparr>SizeX = 64, SizeY = 64, Mip0 = [], bNotOfflineProcessed = False\<rparr>],
      root_set = {}, texture_parameter = Map.empty\<rparr>"

definition caller_frame :: "int32 \<Rightarrow> int32 \<Rightarrow> bool \<Rightarrow> frame" where
  "caller_frame w h v =
     \<lparr>ImageWidth = w, ImageHeight = h, IsValid = v, engine_st = editor_state, visited = []\<rparr>"

lemmas demo_defs = rock_def gone_def thumbnail_of_def content_browser_def editor_state_def
  caller_frame_def asset_in_storage_def generated_thumbnail_def stored_thumbnail_def
  usable_def asked_size_def regenerates_def ToString_def

lemmas run_defs = RenderAssetThumbnailToDynamicMaterial_def
  AddExistingAssetThumbnailToDynamicMaterial_def validate_asset_def regenerate_def
  measure_thumbnail_def prepare_transient_def populate_transient_def existing_thumbnail_def
  cached_fallback_def use_default_def and_then_def visit_def NewObject_def CreateTransient_def
  ImportBufferAsTexture2D_def SetTextureParameterValue_def Memcpy_def populate_mip_def
  AddToRoot_def TSet_Add_def outputs_def bound_texture_def Let_def


section \<open>Properties of RegisterMetadataTags\<close>

lemma set_TSet_Add: "set (TSet_Add S x) = insert x (set S)"
  by (auto simp: TSet_Add_def)

lemma distinct_TSet_Add: "distinct S \<Longrightarrow> distinct (TSet_Add S x)"
  by (simp add: TSet_Add_def)

lemma take_TSet_Add: "take (length S) (TSet_Add S x) = S"
  by (simp add: TSet_Add_def)

lemma set_RegisterMetadataTags:
  "set (RegisterMetadataTags Tags G) = set G \<union> {t \<in> set Tags. \<not> IsNone t}"
  by (induction Tags arbitrary: G) (auto simp: set_TSet_Add TSet_Contains_def)

lemma distinct_RegisterMetadataTags:
  "distinct G \<Longrightarrow> distinct (RegisterMetadataTags Tags G)"
  by (induction Tags arbitrary: G) (simp_all add: distinct_TSet_Add)

lemma length_TSet_Add: "length S \<le> length (TSet_Add S x)"
  by (simp add: TSet_Add_def)

lemma length_RegisterMetadataTags: "length G \<le> length (RegisterMetadataTags Tags G)"
proof (induction Tags arbitrary: G)
  case Nil
  show ?case by simp
next
  case (Cons Tag Tags)
  have "length G \<le> length (TSet_Add G Tag)" by (rule length_TSet_Add)
  also have "\<dots> \<le> length (RegisterMetadataTags Tags (TSet_Add G Tag))" by (rule Cons.IH)
  finally show ?case using Cons.IH [of G] by simp
qed

lemma take_RegisterMetadataTags:
  "take (length G) (RegisterMetadataTags Tags G) = G"
proof (induction Tags arbitrary: G)
  case Nil
  show ?case by simp
next
  case (Cons Tag Tags)
  let ?G' = "TSet_Add G Tag"
  have "take (length G) (RegisterMetadataTags Tags ?G') =
        take (length G) (take (length ?G') (RegisterMetadataTags Tags ?G'))"
    by (simp add: length_TSet_Add min_absorb1)
  also have "\<dots> = take (length G) ?G'" by (simp only: Cons.IH)
  also have "\<dots> = G" by (rule take_TSet_Add)
  finally show ?case using Cons.IH [of G] by simp
qed

text \<open>
  C9. After \<open>RegisterMetadataTags\<close> the global tag set holds exactly its prior tags
  and the input tags other than \<open>None\<close>; a set without duplicates stays without
  duplicates (a tag already present is not added again); and the prior tags are still
  there, in their places.
\<close>

theorem RegisterMetadataTags_union:
  "set (RegisterMetadataTags Tags G) = set G \<union> {t \<in> set Tags. \<not> IsNone t}
   \<and> (distinct G \<longrightarrow> distinct (RegisterMetadataTags Tags G))
   \<and> take (length G) (RegisterMetadataTags Tags G) = G"
  by (simp add: set_RegisterMetadataTags distinct_RegisterMetadataTags
      take_RegisterMetadataTags)

theorem RegisterMetadataTags_union_witness:
  "distinct [''Author''] \<and>
   RegisterMetadataTags [''None'', ''Author'', ''Shot'', ''Shot''] [''Author'']
     = [''Author'', ''Shot''] \<and>
   distinct (RegisterMetadataTags [''None'', ''Author'', ''Shot'', ''Shot''] [''Author'']) \<and>
   set (RegisterMetadataTags [''None'', ''Author'', ''Shot'', ''Shot''] [''Author'']) =
     set [''Author''] \<union> {t \<in> set [''None'', ''Author'', ''Shot'', ''Shot'']. \<not> IsNone t}"
proof -
  have d: "distinct [''Author'']" by simp
  have e: "RegisterMetadataTags [''None'', ''Author'', ''Shot'', ''Shot''] [''Author'']
      = [''Author'', ''Shot'']"
    by (simp add: IsNone_def TSet_Contains_def TSet_Add_def)
  note t = RegisterMetadataTags_union
    [of "[''None'', ''Author'', ''Shot'', ''Shot'']" "[''Author'']"]
  from d e t show ?thesis by blast
qed

section \<open>Properties of GetEditorViewportMousePositionWS\<close>







section \<open>The blocks of RenderAssetThumbnailToDynamicMaterial\<close>

lemma sless_one: "(w :: int32) <s 1 \<longleftrightarrow> sint w < 1"
  by (simp add: word_sless_alt)

lemma validate_asset_eq:
  "validate_asset E A f =
     visit CheckExists (f\<lparr>IsValid := asset_in_storage E A\<rparr>)"
  by (auto simp: validate_asset_def asset_in_storage_def visit_def Let_def split: option.splits)

lemma measure_thumbnail_eq:
  "measure_thumbnail thumb f =
     f\<lparr>ImageWidth := fst (asked_size thumb), ImageHeight := snd (asked_size thumb),
       IsValid := IsValid f \<and> usable thumb\<rparr>"
  by (cases thumb)
     (auto simp: measure_thumbnail_def Let_def asked_size_def usable_def sless_one)

lemma prepare_transient_eq:
  "prepare_transient E f =
     (if CreateTransient_succeeds E (ImageWidth f) (ImageHeight f)
      then (Some (length (textures (engine_st f))),
            visit (Allocate (ImageWidth f) (ImageHeight f))
              (f\<lparr>engine_st := (engine_st f)\<lparr>textures := textures (engine_st f) @
                 [\<lparr>SizeX = ImageWidth f, SizeY = ImageHeight f, Mip0 = [],
                   bNotOfflineProcessed = False\<rparr>]\<rparr>\<rparr>))
      else (None, visit (Allocate (ImageWidth f) (ImageHeight f)) (f\<lparr>IsValid := False\<rparr>)))"
  by (simp add: prepare_transient_def CreateTransient_def NewObject_def Let_def visit_def)

lemma regenerate_fails:
  assumes "asset_in_storage E A" "\<not> regenerates E A"
  shows "\<exists>g. regenerate E DM A (validate_asset E A f) = Next g \<and> \<not> IsValid g
     \<and> ImageWidth g = fst (asked_size (generated_thumbnail E A))
     \<and> ImageHeight g = snd (asked_size (generated_thumbnail E A))
     \<and> visited g = visited f @ [CheckExists, Generate,
          Allocate (fst (asked_size (generated_thumbnail E A)))
                   (snd (asked_size (generated_thumbnail E A)))]"
  using assms
  by (auto simp: regenerate_def validate_asset_eq measure_thumbnail_eq prepare_transient_eq
      regenerates_def generated_thumbnail_def visit_def Let_def)

lemma regenerate_missing:
  assumes "\<not> asset_in_storage E A"
  shows "regenerate E DM A (validate_asset E A f) = Next (visit CheckExists (f\<lparr>IsValid := False\<rparr>))"
  using assms by (simp add: regenerate_def validate_asset_eq visit_def)

lemma cached_fallback_missing:
  assumes "\<not> asset_in_storage E A"
  shows "cached_fallback E DM A g = Next (visit RecheckExists g)"
  using assms by (auto simp: cached_fallback_def asset_in_storage_def Let_def split: option.splits)

lemma cached_fallback_none:
  assumes "asset_in_storage E A" "stored_thumbnail E A = None"
  shows "cached_fallback E DM A g = Crash NullThumbnail (visit LoadCached (visit RecheckExists g))"
  using assms by (auto simp: cached_fallback_def asset_in_storage_def stored_thumbnail_def
      existing_thumbnail_def and_then_def TSet_Add_def Let_def split: option.splits)


lemma regenerates_Some:
  "regenerates E A \<Longrightarrow> \<exists>t. generated_thumbnail E A = Some t"
  by (cases "generated_thumbnail E A") (simp_all add: regenerates_def usable_def)

lemma regenerate_succeeds:
  assumes "regenerates E A" "generated_thumbnail E A = Some t"
  shows "\<exists>g. regenerate E (Some m) A (validate_asset E A f) = Return g \<and> IsValid g
     \<and> ImageWidth g = GetImageWidth t \<and> ImageHeight g = GetImageHeight t
     \<and> texture_parameter (engine_st g) =
         (texture_parameter (engine_st f))((m, ''texture'') \<mapsto> Some (length (textures (engine_st f))))
     \<and> textures (engine_st g) = textures (engine_st f) @
         [\<lparr>SizeX = GetImageWidth t, SizeY = GetImageHeight t,
           Mip0 = GetUncompressedImageData t, bNotOfflineProcessed = True\<rparr>]
     \<and> root_set (engine_st g) = insert (length (textures (engine_st f))) (root_set (engine_st f))
     \<and> visited g = visited f @ [CheckExists, Generate,
          Allocate (GetImageWidth t) (GetImageHeight t), BindGenerated]"
  using assms
  by (auto simp add: regenerate_def validate_asset_eq measure_thumbnail_eq prepare_transient_eq
      regenerates_def generated_thumbnail_def visit_def Let_def asked_size_def
      populate_transient_def SetTextureParameterValue_def AddToRoot_def populate_mip_def
      Memcpy_def)

lemma regenerate_succeeds_null:
  assumes "regenerates E A"
  shows "\<exists>g. regenerate E None A (validate_asset E A f) = Crash NullMaterial g
     \<and> visited g = visited f @ [CheckExists, Generate,
          Allocate (fst (asked_size (generated_thumbnail E A)))
                   (snd (asked_size (generated_thumbnail E A))), BindGenerated]"
  using assms regenerates_Some [OF assms]
  by (auto simp add: regenerate_def validate_asset_eq measure_thumbnail_eq prepare_transient_eq
      regenerates_def generated_thumbnail_def visit_def Let_def asked_size_def
      populate_transient_def SetTextureParameterValue_def AddToRoot_def populate_mip_def
      Memcpy_def)

lemma existing_thumbnail_Some:
  assumes "LoadThumbnailsFromPackage E fn ns n = Some t"
  shows "\<exists>g'. existing_thumbnail E (Some m) fn ns n g = Next g'
     \<and> IsValid g' = IsValid g
     \<and> ImageWidth g' = GetImageWidth t \<and> ImageHeight g' = GetImageHeight t
     \<and> texture_parameter (engine_st g') (m, ''texture'') =
         Some (fst (ImportBufferAsTexture2D E
           (GetCompressed E (GetUncompressedImageData t) (GetImageWidth t) (GetImageHeight t))
           (engine_st g)))
     \<and> visited g' = visited g @ [LoadCached, BindCached]"
  using assms
  by (simp add: existing_thumbnail_def Let_def visit_def SetTextureParameterValue_def
      split: prod.splits)

lemma existing_thumbnail_Some_null:
  assumes "LoadThumbnailsFromPackage E fn ns n = Some t"
  shows "\<exists>g'. existing_thumbnail E None fn ns n g = Crash NullMaterial g'
     \<and> visited g' = visited g @ [LoadCached, BindCached]"
  using assms
  by (simp add: existing_thumbnail_def Let_def visit_def SetTextureParameterValue_def
      split: prod.splits)

lemma existing_thumbnail_None:
  assumes "LoadThumbnailsFromPackage E fn ns n = None"
  shows "existing_thumbnail E DM fn ns n g = Crash NullThumbnail (visit LoadCached g)"
  using assms by (simp add: existing_thumbnail_def Let_def)

lemma cached_fallback_some:
  assumes "asset_in_storage E A" "stored_thumbnail E A = Some t"
  shows "\<exists>g'. cached_fallback E (Some m) A g = Return g' \<and> IsValid g'
     \<and> ImageWidth g' = GetImageWidth t \<and> ImageHeight g' = GetImageHeight t
     \<and> texture_parameter (engine_st g') (m, ''texture'') =
         Some (fst (ImportBufferAsTexture2D E
           (GetCompressed E (GetUncompressedImageData t) (GetImageWidth t) (GetImageHeight t))
           (engine_st g)))
     \<and> visited g' = visited g @ [RecheckExists, LoadCached, BindCached]"
proof -
  from assms obtain fn where fn: "DoesPackageExist E (ToString (PackageName A)) = Some fn"
    and ne: "ToString (PackageName A) \<noteq> ''None''"
    by (auto simp: asset_in_storage_def)
  with assms(2) have l: "LoadThumbnailsFromPackage E fn [GetFullName A] (GetFullName A) = Some t"
    by (simp add: stored_thumbnail_def)
  from existing_thumbnail_Some [OF l, where m=m and g="visit RecheckExists g"]
  show ?thesis using fn ne
    by (auto simp: cached_fallback_def Let_def TSet_Add_def and_then_def visit_def)
qed

lemma cached_fallback_some_null:
  assumes "asset_in_storage E A" "stored_thumbnail E A = Some t"
  shows "\<exists>g'. cached_fallback E None A g = Crash NullMaterial g'
     \<and> visited g' = visited g @ [RecheckExists, LoadCached, BindCached]"
proof -
  from assms obtain fn where fn: "DoesPackageExist E (ToString (PackageName A)) = Some fn"
    and ne: "ToString (PackageName A) \<noteq> ''None''"
    by (auto simp: asset_in_storage_def)
  with assms(2) have l: "LoadThumbnailsFromPackage E fn [GetFullName A] (GetFullName A) = Some t"
    by (simp add: stored_thumbnail_def)
  from existing_thumbnail_Some_null [OF l, where g="visit RecheckExists g"]
  show ?thesis using fn ne
    by (auto simp: cached_fallback_def Let_def TSet_Add_def and_then_def visit_def)
qed

lemma use_default_Some:
  "use_default (Some m) D f =
     Return (f\<lparr>engine_st := (engine_st f)\<lparr>texture_parameter :=
        (texture_parameter (engine_st f))((m, ''texture'') \<mapsto> D)\<rparr>,
        visited := visited f @ [BindDefault]\<rparr>)"
  by (simp add: use_default_def visit_def SetTextureParameterValue_def Let_def)

lemma use_default_None:
  "use_default None D f = Crash NullMaterial (visit BindDefault f)"
  by (simp add: use_default_def visit_def SetTextureParameterValue_def Let_def)

lemma render_missing:
  assumes "\<not> asset_in_storage E A"
  shows "RenderAssetThumbnailToDynamicMaterial E DM A D f =
     use_default DM D (visit RecheckExists (visit CheckExists (f\<lparr>IsValid := False\<rparr>)))"
  using assms
  by (simp add: RenderAssetThumbnailToDynamicMaterial_def regenerate_missing
      cached_fallback_missing and_then_def)

lemma render_regenerates:
  assumes "regenerates E A"
  shows "RenderAssetThumbnailToDynamicMaterial E DM A D f =
     regenerate E DM A (validate_asset E A f)"
proof (cases DM)
  case None
  with regenerate_succeeds_null [OF assms, where f=f] show ?thesis
    by (auto simp: RenderAssetThumbnailToDynamicMaterial_def and_then_def)
next
  case (Some m)
  from regenerates_Some [OF assms] obtain t where "generated_thumbnail E A = Some t" ..
  from regenerate_succeeds [OF assms this, where m=m and f=f] Some show ?thesis
    by (auto simp: RenderAssetThumbnailToDynamicMaterial_def and_then_def)
qed

lemma cached_fallback_not_Next:
  assumes "asset_in_storage E A"
  shows "and_then (cached_fallback E DM A g) k = cached_fallback E DM A g"
proof (cases "stored_thumbnail E A")
  case None
  then show ?thesis by (simp add: cached_fallback_none [OF assms] and_then_def)
next
  case (Some t)
  show ?thesis
  proof (cases DM)
    case None
    with cached_fallback_some_null [OF assms Some, where g=g] show ?thesis
      by (auto simp: and_then_def)
  next
    case (Some m)
    with cached_fallback_some [OF assms \<open>stored_thumbnail E A = Some t\<close>, where m=m and g=g] show ?thesis
      by (auto simp: and_then_def)
  qed
qed

lemma render_falls_back:
  assumes "asset_in_storage E A" "\<not> regenerates E A"
  shows "\<exists>g. regenerate E DM A (validate_asset E A f) = Next g \<and> \<not> IsValid g
     \<and> ImageWidth g = fst (asked_size (generated_thumbnail E A))
     \<and> ImageHeight g = snd (asked_size (generated_thumbnail E A))
     \<and> visited g = visited f @ [CheckExists, Generate,
          Allocate (fst (asked_size (generated_thumbnail E A)))
                   (snd (asked_size (generated_thumbnail E A)))]
     \<and> RenderAssetThumbnailToDynamicMaterial E DM A D f = cached_fallback E DM A g"
proof -
  from regenerate_fails [OF assms, where DM=DM and f=f] obtain g where
    g: "regenerate E DM A (validate_asset E A f) = Next g" "\<not> IsValid g"
     "ImageWidth g = fst (asked_size (generated_thumbnail E A))"
     "ImageHeight g = snd (asked_size (generated_thumbnail E A))"
     "visited g = visited f @ [CheckExists, Generate,
          Allocate (fst (asked_size (generated_thumbnail E A)))
                   (snd (asked_size (generated_thumbnail E A)))]"
    by blast
  have "RenderAssetThumbnailToDynamicMaterial E DM A D f =
      and_then (cached_fallback E DM A g) (use_default DM D)"
    by (simp add: RenderAssetThumbnailToDynamicMaterial_def g(1) and_then_def)
  also have "\<dots> = cached_fallback E DM A g" by (rule cached_fallback_not_Next [OF assms(1)])
  finally show ?thesis using g by blast
qed



lemma render_outputs:
  "outputs (RenderAssetThumbnailToDynamicMaterial E DM A D f) =
     (if \<not> asset_in_storage E A
      then (case DM of None \<Rightarrow> Inl NullMaterial
            | Some m \<Rightarrow> Inr (ImageWidth f, ImageHeight f, False))
      else if regenerates E A
      then (case DM of None \<Rightarrow> Inl NullMaterial
            | Some m \<Rightarrow> Inr (fst (asked_size (generated_thumbnail E A)),
                            snd (asked_size (generated_thumbnail E A)), True))
      else (case stored_thumbnail E A of None \<Rightarrow> Inl NullThumbnail
            | Some t \<Rightarrow> (case DM of None \<Rightarrow> Inl NullMaterial
                          | Some m \<Rightarrow> Inr (GetImageWidth t, GetImageHeight t, True))))"
proof -
  consider (missing) "\<not> asset_in_storage E A"
    | (regen) "asset_in_storage E A" "regenerates E A"
    | (fallback) "asset_in_storage E A" "\<not> regenerates E A"
    by blast
  then show ?thesis
  proof cases
    case missing
    then show ?thesis
      by (cases DM)
         (simp_all add: render_missing use_default_Some use_default_None outputs_def visit_def)
  next
    case regen
    from regenerates_Some [OF regen(2)] obtain t where t: "generated_thumbnail E A = Some t" ..
    show ?thesis
    proof (cases DM)
      case None
      with regenerate_succeeds_null [OF regen(2), where f=f] regen show ?thesis
        by (auto simp: render_regenerates outputs_def)
    next
      case (Some m)
      with regenerate_succeeds [OF regen(2) t, where m=m and f=f] regen t show ?thesis
        by (auto simp: render_regenerates outputs_def asked_size_def regenerates_def)
    qed
  next
    case fallback
    from render_falls_back [OF fallback, where DM=DM and D=D and f=f] obtain g where
      g: "RenderAssetThumbnailToDynamicMaterial E DM A D f = cached_fallback E DM A g"
      by blast
    show ?thesis
    proof (cases "stored_thumbnail E A")
      case None
      with fallback g show ?thesis
        by (simp add: cached_fallback_none outputs_def)
    next
      case (Some t)
      show ?thesis
      proof (cases DM)
        case None
        with cached_fallback_some_null [OF fallback(1) Some, where g=g] fallback g Some
        show ?thesis by (auto simp: outputs_def)
      next
        case (Some m)
        with cached_fallback_some [OF fallback(1) \<open>stored_thumbnail E A = Some t\<close>,
            where g=g and m=m] fallback g \<open>stored_thumbnail E A = Some t\<close>
        show ?thesis by (auto simp: outputs_def)
      qed
    qed
  qed
qed

lemma render_missing_dims:
  assumes "\<not> asset_in_storage E A"
  shows "ImageWidth (frame_of (RenderAssetThumbnailToDynamicMaterial E DM A D f)) = ImageWidth f
     \<and> ImageHeight (frame_of (RenderAssetThumbnailToDynamicMaterial E DM A D f)) = ImageHeight f"
  using assms
  by (cases DM) (simp_all add: render_missing use_default_Some use_default_None visit_def)

section \<open>Claims about RenderAssetThumbnailToDynamicMaterial\<close>







text \<open>
  C2 (the code does not do this). The claim says that every call completes and leaves
  a texture bound. For a package that is on disk, whose asset gives no generated
  thumbnail and whose package file stores none, the run ends at the dereference of the
  null pointer \<open>DefaultThumb\<close> (line 226): no texture is bound, and the default texture
  of line 245 is not reached.
\<close>

theorem Render_without_thumbnail_crashes:
  "asset_in_storage (content_browser None True None) rock
   \<and> generated_thumbnail (content_browser None True None) rock = None
   \<and> stored_thumbnail (content_browser None True None) rock = None
   \<and> outputs (RenderAssetThumbnailToDynamicMaterial (content_browser None True None)
        (Some 0) rock (Some 0) (caller_frame 0 0 False)) = Inl NullThumbnail
   \<and> bound_texture (RenderAssetThumbnailToDynamicMaterial (content_browser None True None)
        (Some 0) rock (Some 0) (caller_frame 0 0 False)) 0 = None
   \<and> path (RenderAssetThumbnailToDynamicMaterial (content_browser None True None)
        (Some 0) rock (Some 0) (caller_frame 0 0 False)) =
       [CheckExists, Generate, Allocate 1 1, RecheckExists, LoadCached]"
  by (simp add: run_defs demo_defs path_def sless_one)

text \<open>
  C3. For an asset in storage whose generated thumbnail has width and height of at
  least 1 and for which the transient texture can be created, the call returns with
  \<open>IsValid\<close> set and the thumbnail's dimensions, the \<open>texture\<close> parameter of the
  material points to a texture object that did not exist before the call, holding the
  generated pixels and added to the root set, and the run ends at that binding.
\<close>

theorem Render_generated:
  assumes "asset_in_storage E A" and "generated_thumbnail E A = Some t"
    and "1 \<le> sint (GetImageWidth t)" and "1 \<le> sint (GetImageHeight t)"
    and "CreateTransient_succeeds E (GetImageWidth t) (GetImageHeight t)"
  shows "\<exists>g. RenderAssetThumbnailToDynamicMaterial E (Some m) A D f = Return g
     \<and> IsValid g \<and> ImageWidth g = GetImageWidth t \<and> ImageHeight g = GetImageHeight t
     \<and> texture_parameter (engine_st g) (m, ''texture'') =
         Some (Some (length (textures (engine_st f))))
     \<and> textures (engine_st g) = textures (engine_st f) @
         [\<lparr>SizeX = GetImageWidth t, SizeY = GetImageHeight t,
           Mip0 = GetUncompressedImageData t, bNotOfflineProcessed = True\<rparr>]
     \<and> length (textures (engine_st f)) \<in> root_set (engine_st g)
     \<and> visited g = visited f @
         [CheckExists, Generate, Allocate (GetImageWidth t) (GetImageHeight t), BindGenerated]"
proof -
  from assms have r: "regenerates E A"
    by (simp add: regenerates_def usable_def asked_size_def)
  from regenerate_succeeds [OF r assms(2), where m=m and f=f] obtain g where
    g: "regenerate E (Some m) A (validate_asset E A f) = Return g" "IsValid g"
      "ImageWidth g = GetImageWidth t" "ImageHeight g = GetImageHeight t"
      "texture_parameter (engine_st g) =
         (texture_parameter (engine_st f))((m, ''texture'') \<mapsto> Some (length (textures (engine_st f))))"
      "textures (engine_st g) = textures (engine_st f) @
         [\<lparr>SizeX = GetImageWidth t, SizeY = GetImageHeight t,
           Mip0 = GetUncompressedImageData t, bNotOfflineProcessed = True\<rparr>]"
      "root_set (engine_st g) = insert (length (textures (engine_st f))) (root_set (engine_st f))"
      "visited g = visited f @ [CheckExists, Generate,
          Allocate (GetImageWidth t) (GetImageHeight t), BindGenerated]"
    by blast
  have "RenderAssetThumbnailToDynamicMaterial E (Some m) A D f = Return g"
    by (simp add: render_regenerates [OF r] g(1))
  with g show ?thesis by simp
qed

theorem Render_generated_witness:
  "asset_in_storage (content_browser (Some (thumbnail_of 128 128)) True None) rock
   \<and> generated_thumbnail (content_browser (Some (thumbnail_of 128 128)) True None) rock
       = Some (thumbnail_of 128 128)
   \<and> 1 \<le> sint (GetImageWidth (thumbnail_of 128 128))
   \<and> 1 \<le> sint (GetImageHeight (thumbnail_of 128 128))
   \<and> CreateTransient_succeeds (content_browser (Some (thumbnail_of 128 128)) True None)
        (GetImageWidth (thumbnail_of 128 128)) (GetImageHeight (thumbnail_of 128 128))
   \<and> outputs (RenderAssetThumbnailToDynamicMaterial
        (content_browser (Some (thumbnail_of 128 128)) True None) (Some 0) rock (Some 0)
        (caller_frame 0 0 False)) = Inr (128, 128, True)
   \<and> bound_texture (RenderAssetThumbnailToDynamicMaterial
        (content_browser (Some (thumbnail_of 128 128)) True None) (Some 0) rock (Some 0)
        (caller_frame 0 0 False)) 0 = Some (Some 1)"
proof -
  let ?E = "content_browser (Some (thumbnail_of 128 128)) True None"
  have a: "asset_in_storage ?E rock" by (simp add: demo_defs)
  have b: "generated_thumbnail ?E rock = Some (thumbnail_of 128 128)" by (simp add: demo_defs)
  have c: "1 \<le> sint (GetImageWidth (thumbnail_of 128 128))"
    "1 \<le> sint (GetImageHeight (thumbnail_of 128 128))"
    by (simp_all add: thumbnail_of_def)
  have d: "CreateTransient_succeeds ?E (GetImageWidth (thumbnail_of 128 128))
      (GetImageHeight (thumbnail_of 128 128))"
    by (simp add: content_browser_def)
  from Render_generated [OF a b c d, of 0 "Some 0" "caller_frame 0 0 False"]
  obtain g where g: "RenderAssetThumbnailToDynamicMaterial ?E (Some 0) rock (Some 0)
        (caller_frame 0 0 False) = Return g" "IsValid g"
      "ImageWidth g = GetImageWidth (thumbnail_of 128 128)"
      "ImageHeight g = GetImageHeight (thumbnail_of 128 128)"
      "texture_parameter (engine_st g) (0, ''texture'') =
         Some (Some (length (textures (engine_st (caller_frame 0 0 False)))))"
    by blast
  have "outputs (RenderAssetThumbnailToDynamicMaterial ?E (Some 0) rock (Some 0)
        (caller_frame 0 0 False)) = Inr (128, 128, True)"
    using g by (simp add: outputs_def thumbnail_of_def)
  moreover have "bound_texture (RenderAssetThumbnailToDynamicMaterial ?E (Some 0) rock (Some 0)
        (caller_frame 0 0 False)) 0 = Some (Some 1)"
    using g by (simp add: bound_texture_def caller_frame_def editor_state_def)
  ultimately show ?thesis using a b c d by simp
qed

text \<open>
  C4 (amended). For an asset that is not in storage the call returns with \<open>IsValid\<close>
  false and the default texture bound, creates no texture, and leaves \<open>ImageWidth\<close>
  and \<open>ImageHeight\<close> as the caller passed them.
\<close>

theorem Render_missing_default:
  assumes "\<not> asset_in_storage E A"
  shows "\<exists>g. RenderAssetThumbnailToDynamicMaterial E (Some m) A D f = Return g
     \<and> \<not> IsValid g
     \<and> texture_parameter (engine_st g) (m, ''texture'') = Some D
     \<and> ImageWidth g = ImageWidth f \<and> ImageHeight g = ImageHeight f
     \<and> textures (engine_st g) = textures (engine_st f)
     \<and> visited g = visited f @ [CheckExists, RecheckExists, BindDefault]"
  using assms by (simp add: render_missing use_default_Some visit_def)

theorem Render_missing_default_witness:
  "\<not> asset_in_storage (content_browser None True None) gone
   \<and> outputs (RenderAssetThumbnailToDynamicMaterial (content_browser None True None)
        (Some 0) gone (Some 0) (caller_frame 0 0 True)) = Inr (0, 0, False)
   \<and> bound_texture (RenderAssetThumbnailToDynamicMaterial (content_browser None True None)
        (Some 0) gone (Some 0) (caller_frame 0 0 True)) 0 = Some (Some 0)"
proof -
  let ?E = "content_browser None True None"
  have a: "\<not> asset_in_storage ?E gone" by (simp add: demo_defs)
  from Render_missing_default [OF a, of 0 "Some 0" "caller_frame 0 0 True"]
  obtain g where g: "RenderAssetThumbnailToDynamicMaterial ?E (Some 0) gone (Some 0)
        (caller_frame 0 0 True) = Return g" "\<not> IsValid g"
      "texture_parameter (engine_st g) (0, ''texture'') = Some (Some 0)"
      "ImageWidth g = ImageWidth (caller_frame 0 0 True)"
      "ImageHeight g = ImageHeight (caller_frame 0 0 True)"
    by blast
  then show ?thesis using a
    by (simp add: outputs_def bound_texture_def caller_frame_def)
qed

text \<open>
  C4 as stated fails: with a 64 x 64 default texture and the caller's variables holding
  7 and 9, a missing asset gives 7 and 9, neither 1 x 1 nor 64 x 64.
\<close>

theorem Render_missing_dimensions_counterexample:
  "\<not> asset_in_storage (content_browser None True None) gone
   \<and> stored_thumbnail (content_browser None True None) gone = None
   \<and> SizeX (textures editor_state ! 0) = 64 \<and> SizeY (textures editor_state ! 0) = 64
   \<and> bound_texture (RenderAssetThumbnailToDynamicMaterial (content_browser None True None)
        (Some 0) gone (Some 0) (caller_frame 7 9 True)) 0 = Some (Some 0)
   \<and> outputs (RenderAssetThumbnailToDynamicMaterial (content_browser None True None)
        (Some 0) gone (Some 0) (caller_frame 7 9 True)) = Inr (7, 9, False)
   \<and> (7 :: int32) \<noteq> 1 \<and> (7 :: int32) \<noteq> 64"
  by (simp add: run_defs demo_defs sless_one)



lemma render_regenerates_bound:
  assumes "regenerates E A"
  shows "bound_texture (RenderAssetThumbnailToDynamicMaterial E (Some m) A D f) m =
       Some (Some (length (textures (engine_st f))))
     \<and> length (textures (engine_st (frame_of
          (RenderAssetThumbnailToDynamicMaterial E (Some m) A D f)))) =
       Suc (length (textures (engine_st f)))"
proof -
  from regenerates_Some [OF assms] obtain t where t: "generated_thumbnail E A = Some t" ..
  from regenerate_succeeds [OF assms t, where m=m and f=f] show ?thesis
    by (auto simp: render_regenerates [OF assms] bound_texture_def)
qed

text \<open>
  C6 (amended). Two calls with the same asset, default texture and material give the
  same error or the same \<open>ImageWidth\<close>, \<open>ImageHeight\<close> and \<open>IsValid\<close>, whatever
  the engine state of each, provided the second call starts with the \<open>ImageWidth\<close>
  and \<open>ImageHeight\<close> the first call started with, or with those the first call left.
  Nothing is cached: when the first call regenerates the thumbnail, a second call
  run in the state the first left binds another texture object.
\<close>

theorem Render_repeatable:
  assumes "ImageWidth f2 = ImageWidth f \<and> ImageHeight f2 = ImageHeight f
     \<or> ImageWidth f2 = ImageWidth (frame_of (RenderAssetThumbnailToDynamicMaterial E DM A D f))
       \<and> ImageHeight f2 = ImageHeight (frame_of (RenderAssetThumbnailToDynamicMaterial E DM A D f))"
  shows "outputs (RenderAssetThumbnailToDynamicMaterial E DM A D f2) =
         outputs (RenderAssetThumbnailToDynamicMaterial E DM A D f)
     \<and> (regenerates E A \<and> DM = Some m
          \<and> engine_st f2 = engine_st (frame_of (RenderAssetThumbnailToDynamicMaterial E DM A D f))
        \<longrightarrow> bound_texture (RenderAssetThumbnailToDynamicMaterial E DM A D f2) m \<noteq>
            bound_texture (RenderAssetThumbnailToDynamicMaterial E DM A D f) m)"
proof
  show "outputs (RenderAssetThumbnailToDynamicMaterial E DM A D f2) =
         outputs (RenderAssetThumbnailToDynamicMaterial E DM A D f)"
  proof (cases "asset_in_storage E A")
    case True
    then show ?thesis by (simp add: render_outputs)
  next
    case False
    with assms render_missing_dims [OF False, of DM D f] show ?thesis
      by (auto simp: render_outputs split: option.splits)
  qed
next
  show "regenerates E A \<and> DM = Some m
          \<and> engine_st f2 = engine_st (frame_of (RenderAssetThumbnailToDynamicMaterial E DM A D f))
        \<longrightarrow> bound_texture (RenderAssetThumbnailToDynamicMaterial E DM A D f2) m \<noteq>
            bound_texture (RenderAssetThumbnailToDynamicMaterial E DM A D f) m"
  proof (intro impI, elim conjE)
    assume r: "regenerates E A" and dm: "DM = Some m"
      and st: "engine_st f2 = engine_st (frame_of (RenderAssetThumbnailToDynamicMaterial E DM A D f))"
    from render_regenerates_bound [OF r, of m D f] render_regenerates_bound [OF r, of m D f2]
      dm st
    show "bound_texture (RenderAssetThumbnailToDynamicMaterial E DM A D f2) m \<noteq>
            bound_texture (RenderAssetThumbnailToDynamicMaterial E DM A D f) m"
      by simp
  qed
qed


theorem Render_repeatable_witness:
  "ImageWidth (frame_of (RenderAssetThumbnailToDynamicMaterial
       (content_browser (Some (thumbnail_of 128 128)) True None) (Some 0) rock (Some 0)
       (caller_frame 0 0 False))) = 128
   \<and> regenerates (content_browser (Some (thumbnail_of 128 128)) True None) rock
   \<and> outputs (RenderAssetThumbnailToDynamicMaterial
       (content_browser (Some (thumbnail_of 128 128)) True None) (Some 0) rock (Some 0)
       (caller_frame 0 0 False)) = Inr (128, 128, True)
   \<and> outputs (RenderAssetThumbnailToDynamicMaterial
       (content_browser (Some (thumbnail_of 128 128)) True None) (Some 0) rock (Some 0)
       (frame_of (RenderAssetThumbnailToDynamicMaterial
          (content_browser (Some (thumbnail_of 128 128)) True None) (Some 0) rock (Some 0)
          (caller_frame 0 0 False)))) = Inr (128, 128, True)
   \<and> bound_texture (RenderAssetThumbnailToDynamicMaterial
       (content_browser (Some (thumbnail_of 128 128)) True None) (Some 0) rock (Some 0)
       (frame_of (RenderAssetThumbnailToDynamicMaterial
          (content_browser (Some (thumbnail_of 128 128)) True None) (Some 0) rock (Some 0)
          (caller_frame 0 0 False)))) 0 \<noteq>
     bound_texture (RenderAssetThumbnailToDynamicMaterial
       (content_browser (Some (thumbnail_of 128 128)) True None) (Some 0) rock (Some 0)
       (caller_frame 0 0 False)) 0"
proof -
  let ?E = "content_browser (Some (thumbnail_of 128 128)) True None"
  let ?r1 = "RenderAssetThumbnailToDynamicMaterial ?E (Some 0) rock (Some 0)
       (caller_frame 0 0 False)"
  have w: "ImageWidth (frame_of ?r1) = 128" by (simp add: run_defs demo_defs sless_one)
  have r: "regenerates ?E rock" by (simp add: demo_defs)
  have o: "outputs ?r1 = Inr (128, 128, True)" by (simp add: run_defs demo_defs sless_one)
  have h: "ImageWidth (frame_of ?r1) = ImageWidth (caller_frame 0 0 False)
       \<and> ImageHeight (frame_of ?r1) = ImageHeight (caller_frame 0 0 False)
     \<or> ImageWidth (frame_of ?r1) = ImageWidth (frame_of ?r1)
       \<and> ImageHeight (frame_of ?r1) = ImageHeight (frame_of ?r1)"
    by simp
  from Render_repeatable [OF h, of 0] w r o show ?thesis by simp
qed

text \<open>
  C6 as stated fails: for a missing asset the call does not assign \<open>ImageWidth\<close> and
  \<open>ImageHeight\<close>, so a second call whose variables hold other values returns other
  values.
\<close>

theorem Render_repeat_counterexample:
  "outputs (RenderAssetThumbnailToDynamicMaterial (content_browser None True None)
       (Some 0) gone (Some 0) (caller_frame 5 5 False)) = Inr (5, 5, False)
   \<and> outputs (RenderAssetThumbnailToDynamicMaterial (content_browser None True None)
       (Some 0) gone (Some 0)
       ((frame_of (RenderAssetThumbnailToDynamicMaterial (content_browser None True None)
           (Some 0) gone (Some 0) (caller_frame 5 5 False)))
        \<lparr>ImageWidth := 9, ImageHeight := 9\<rparr>)) = Inr (9, 9, False)
   \<and> (9 :: int32) \<noteq> 5"
  by (simp add: run_defs demo_defs sless_one)

section \<open>Claims about the stored thumbnail and AddExistingAssetThumbnailToDynamicMaterial\<close>

lemma existing_thumbnail_IsValid:
  "IsValid (frame_of (existing_thumbnail E DM fn ns n g)) = IsValid g"
  by (simp add: existing_thumbnail_def Let_def visit_def SetTextureParameterValue_def
      split: option.splits prod.splits)

lemma and_then_Return: "frame_of (and_then r Return) = frame_of r"
  by (cases r) (simp_all add: and_then_def)

lemma add_existing_missing:
  assumes "\<not> asset_in_storage E A"
  shows "AddExistingAssetThumbnailToDynamicMaterial E DM A D f = use_default DM D f"
  using assms
  by (auto simp: AddExistingAssetThumbnailToDynamicMaterial_def asset_in_storage_def Let_def
      split: option.splits)

lemma add_existing_stored:
  assumes "asset_in_storage E A"
  shows "\<exists>fn. DoesPackageExist E (ToString (PackageName A)) = Some fn
     \<and> stored_thumbnail E A = LoadThumbnailsFromPackage E fn [GetFullName A] (GetFullName A)
     \<and> AddExistingAssetThumbnailToDynamicMaterial E DM A D f =
       and_then (existing_thumbnail E DM fn [GetFullName A] (GetFullName A) f) Return"
  using assms
  by (auto simp: AddExistingAssetThumbnailToDynamicMaterial_def asset_in_storage_def Let_def
      stored_thumbnail_def TSet_Add_def)

lemma add_existing_none:
  assumes "asset_in_storage E A" "stored_thumbnail E A = None"
  shows "AddExistingAssetThumbnailToDynamicMaterial E DM A D f =
     Crash NullThumbnail (visit LoadCached f)"
proof -
  from add_existing_stored [OF assms(1), of DM D f] assms(2) show ?thesis
    by (auto simp: existing_thumbnail_None and_then_def)
qed

lemma add_existing_some:
  assumes "asset_in_storage E A" "stored_thumbnail E A = Some t"
  shows "\<exists>g. AddExistingAssetThumbnailToDynamicMaterial E (Some m) A D f = Return g
     \<and> ImageWidth g = GetImageWidth t \<and> ImageHeight g = GetImageHeight t"
proof -
  from add_existing_stored [OF assms(1), of "Some m" D f] assms(2) obtain fn where
    fn: "LoadThumbnailsFromPackage E fn [GetFullName A] (GetFullName A) = Some t"
    "AddExistingAssetThumbnailToDynamicMaterial E (Some m) A D f =
       and_then (existing_thumbnail E (Some m) fn [GetFullName A] (GetFullName A) f) Return"
    by auto
  from existing_thumbnail_Some [OF fn(1), where m=m and g=f] fn(2) show ?thesis
    by (auto simp: and_then_def)
qed

lemma add_existing_some_dims:
  assumes "asset_in_storage E A" "stored_thumbnail E A = Some t"
  shows "ImageWidth (frame_of (AddExistingAssetThumbnailToDynamicMaterial E DM A D f)) =
       GetImageWidth t
     \<and> ImageHeight (frame_of (AddExistingAssetThumbnailToDynamicMaterial E DM A D f)) =
       GetImageHeight t"
proof -
  from add_existing_stored [OF assms(1), of DM D f] assms(2) obtain fn where
    fn: "LoadThumbnailsFromPackage E fn [GetFullName A] (GetFullName A) = Some t"
    "AddExistingAssetThumbnailToDynamicMaterial E DM A D f =
       and_then (existing_thumbnail E DM fn [GetFullName A] (GetFullName A) f) Return"
    by auto
  show ?thesis using fn(1)
    by (simp add: fn(2) and_then_Return existing_thumbnail_def Let_def visit_def
      SetTextureParameterValue_def split: option.splits prod.splits)
qed

lemma add_existing_IsValid:
  "IsValid (frame_of (AddExistingAssetThumbnailToDynamicMaterial E DM A D f)) = IsValid f"
proof (cases "asset_in_storage E A")
  case True
  from add_existing_stored [OF True, of DM D f] show ?thesis
    by (auto simp: and_then_Return existing_thumbnail_IsValid)
next
  case False
  then show ?thesis
    by (cases DM) (simp_all add: add_existing_missing use_default_Some use_default_None visit_def)
qed

text \<open>
  C7. In both functions the pointer \<open>Find\<close> returns is dereferenced unchecked. For
  a package that exists, a package file without a stored thumbnail for the object makes
  \<open>AddExistingAssetThumbnailToDynamicMaterial\<close> end at the null dereference, and
  \<open>RenderAssetThumbnailToDynamicMaterial\<close> too whenever it does not regenerate; with
  a stored thumbnail (and a material) both return.
\<close>

theorem thumbnail_lookup_unchecked:
  assumes "asset_in_storage E A"
  shows "(stored_thumbnail E A = None \<longrightarrow>
            outputs (AddExistingAssetThumbnailToDynamicMaterial E DM A D f) = Inl NullThumbnail)
     \<and> (stored_thumbnail E A = None \<and> \<not> regenerates E A \<longrightarrow>
            outputs (RenderAssetThumbnailToDynamicMaterial E DM A D f) = Inl NullThumbnail)
     \<and> (stored_thumbnail E A \<noteq> None \<longrightarrow>
            (\<exists>g. AddExistingAssetThumbnailToDynamicMaterial E (Some m) A D f = Return g)
          \<and> (\<exists>g. RenderAssetThumbnailToDynamicMaterial E (Some m) A D f = Return g))"
proof (intro conjI impI)
  assume "stored_thumbnail E A = None"
  then show "outputs (AddExistingAssetThumbnailToDynamicMaterial E DM A D f) = Inl NullThumbnail"
    by (simp add: add_existing_none [OF assms] outputs_def)
next
  assume "stored_thumbnail E A = None \<and> \<not> regenerates E A"
  then show "outputs (RenderAssetThumbnailToDynamicMaterial E DM A D f) = Inl NullThumbnail"
    using assms by (simp add: render_outputs)
next
  assume "stored_thumbnail E A \<noteq> None"
  then obtain t where t: "stored_thumbnail E A = Some t" by blast
  from add_existing_some [OF assms t, of m D f]
  show "\<exists>g. AddExistingAssetThumbnailToDynamicMaterial E (Some m) A D f = Return g" by blast
next
  assume "stored_thumbnail E A \<noteq> None"
  then obtain t where t: "stored_thumbnail E A = Some t" by blast
  show "\<exists>g. RenderAssetThumbnailToDynamicMaterial E (Some m) A D f = Return g"
  proof (cases "regenerates E A")
    case True
    from regenerates_Some [OF True] obtain u where "generated_thumbnail E A = Some u" ..
    from regenerate_succeeds [OF True this, where m=m and f=f] show ?thesis
      by (auto simp: render_regenerates [OF True])
  next
    case False
    from render_falls_back [OF assms False, where DM="Some m" and D=D and f=f] obtain g where
      g: "RenderAssetThumbnailToDynamicMaterial E (Some m) A D f = cached_fallback E (Some m) A g"
      by blast
    from cached_fallback_some [OF assms t, where m=m and g=g] g show ?thesis by auto
  qed
qed

theorem thumbnail_lookup_unchecked_witness:
  "asset_in_storage (content_browser None False None) rock
   \<and> stored_thumbnail (content_browser None False None) rock = None
   \<and> \<not> regenerates (content_browser None False None) rock
   \<and> outputs (AddExistingAssetThumbnailToDynamicMaterial (content_browser None False None)
        (Some 0) rock (Some 0) (caller_frame 0 0 False)) = Inl NullThumbnail
   \<and> outputs (RenderAssetThumbnailToDynamicMaterial (content_browser None False None)
        (Some 0) rock (Some 0) (caller_frame 0 0 False)) = Inl NullThumbnail
   \<and> asset_in_storage (content_browser None False (Some (thumbnail_of 32 32))) rock
   \<and> stored_thumbnail (content_browser None False (Some (thumbnail_of 32 32))) rock \<noteq> None
   \<and> (\<exists>g. AddExistingAssetThumbnailToDynamicMaterial
          (content_browser None False (Some (thumbnail_of 32 32)))
          (Some 0) rock (Some 0) (caller_frame 0 0 False) = Return g)
   \<and> (\<exists>g. RenderAssetThumbnailToDynamicMaterial
          (content_browser None False (Some (thumbnail_of 32 32)))
          (Some 0) rock (Some 0) (caller_frame 0 0 False) = Return g)"
proof -
  have a: "asset_in_storage (content_browser None False None) rock"
    "stored_thumbnail (content_browser None False None) rock = None"
    "\<not> regenerates (content_browser None False None) rock"
    by (simp_all add: demo_defs)
  have b: "asset_in_storage (content_browser None False (Some (thumbnail_of 32 32))) rock"
    "stored_thumbnail (content_browser None False (Some (thumbnail_of 32 32))) rock \<noteq> None"
    by (simp_all add: demo_defs)
  from thumbnail_lookup_unchecked [OF a(1), of "Some 0" "Some 0" "caller_frame 0 0 False"]
    thumbnail_lookup_unchecked [OF b(1), of "Some 0" "Some 0" "caller_frame 0 0 False" 0]
    a b
  show ?thesis by simp
qed

text \<open>
  C8. \<open>AddExistingAssetThumbnailToDynamicMaterial\<close> never assigns \<open>IsValid\<close>: on
  every path, up to the end of the run, it holds the caller's value. On the default
  texture path \<open>ImageWidth\<close> and \<open>ImageHeight\<close> hold the caller's values too; they
  are assigned, from the stored thumbnail, only when the package name is not \<open>None\<close>
  and the package exists.
\<close>

theorem AddExisting_frame:
  "IsValid (frame_of (AddExistingAssetThumbnailToDynamicMaterial E DM A D f)) = IsValid f
   \<and> (\<not> asset_in_storage E A \<longrightarrow>
        ImageWidth (frame_of (AddExistingAssetThumbnailToDynamicMaterial E DM A D f))
          = ImageWidth f
      \<and> ImageHeight (frame_of (AddExistingAssetThumbnailToDynamicMaterial E DM A D f))
          = ImageHeight f)
   \<and> (asset_in_storage E A \<and> stored_thumbnail E A = Some t \<longrightarrow>
        ImageWidth (frame_of (AddExistingAssetThumbnailToDynamicMaterial E DM A D f))
          = GetImageWidth t
      \<and> ImageHeight (frame_of (AddExistingAssetThumbnailToDynamicMaterial E DM A D f))
          = GetImageHeight t)"
proof (intro conjI impI)
  show "IsValid (frame_of (AddExistingAssetThumbnailToDynamicMaterial E DM A D f)) = IsValid f"
    by (rule add_existing_IsValid)
next
  assume n: "\<not> asset_in_storage E A"
  show "ImageWidth (frame_of (AddExistingAssetThumbnailToDynamicMaterial E DM A D f))
          = ImageWidth f"
    by (cases DM)
       (simp_all add: add_existing_missing [OF n] use_default_Some use_default_None visit_def)
  show "ImageHeight (frame_of (AddExistingAssetThumbnailToDynamicMaterial E DM A D f))
          = ImageHeight f"
    by (cases DM)
       (simp_all add: add_existing_missing [OF n] use_default_Some use_default_None visit_def)
next
  assume s: "asset_in_storage E A \<and> stored_thumbnail E A = Some t"
  then have s1: "asset_in_storage E A" and s2: "stored_thumbnail E A = Some t" by simp_all
  from add_existing_some_dims [OF s1 s2, of DM D f]
  show "ImageWidth (frame_of (AddExistingAssetThumbnailToDynamicMaterial E DM A D f))
          = GetImageWidth t"
    and "ImageHeight (frame_of (AddExistingAssetThumbnailToDynamicMaterial E DM A D f))
          = GetImageHeight t"
    by simp_all
qed

theorem AddExisting_frame_witness:
  "\<not> asset_in_storage (content_browser None True None) gone
   \<and> outputs (AddExistingAssetThumbnailToDynamicMaterial (content_browser None True None)
        (Some 0) gone (Some 0) (caller_frame 7 9 True)) = Inr (7, 9, True)
   \<and> asset_in_storage (content_browser None True (Some (thumbnail_of 32 32))) rock
   \<and> stored_thumbnail (content_browser None True (Some (thumbnail_of 32 32))) rock
       = Some (thumbnail_of 32 32)
   \<and> outputs (AddExistingAssetThumbnailToDynamicMaterial
        (content_browser None True (Some (thumbnail_of 32 32)))
        (Some 0) rock (Some 0) (caller_frame 7 9 False)) = Inr (32, 32, False)"
proof -
  have a: "\<not> asset_in_storage (content_browser None True None) gone"
    by (simp add: demo_defs)
  have b: "asset_in_storage (content_browser None True (Some (thumbnail_of 32 32))) rock"
    "stored_thumbnail (content_browser None True (Some (thumbnail_of 32 32))) rock
       = Some (thumbnail_of 32 32)"
    by (simp_all add: demo_defs)
  have r1: "\<exists>g. AddExistingAssetThumbnailToDynamicMaterial (content_browser None True None)
        (Some 0) gone (Some 0) (caller_frame 7 9 True) = Return g"
    by (simp add: add_existing_missing [OF a] use_default_Some)
  have r2: "\<exists>g. AddExistingAssetThumbnailToDynamicMaterial
        (content_browser None True (Some (thumbnail_of 32 32)))
        (Some 0) rock (Some 0) (caller_frame 7 9 False) = Return g"
    using add_existing_some [OF b] by blast
  from AddExisting_frame [of "content_browser None True None" "Some 0" gone "Some 0"
      "caller_frame 7 9 True"]
    AddExisting_frame [of "content_browser None True (Some (thumbnail_of 32 32))" "Some 0"
      rock "Some 0" "caller_frame 7 9 False" "thumbnail_of 32 32"]
    a b r1 r2
  show ?thesis by (auto simp: outputs_def caller_frame_def thumbnail_of_def)
qed

end
